theory Spec2Isabelle
  imports Complex_Main
begin

section \<open>JavaScript values used by the backend\<close>

text \<open>
  Strings are lists of characters. A JavaScript number is a double; the model keeps the
  real number it stands for, and \<open>NaN\<close> separately. \<open>Num x\<close> is the double nearest to
  \<open>x\<close>, which is \<open>x\<close> itself for every integer up to \<open>2 ^ 53\<close> in magnitude.
\<close>

datatype jsnum = NaN | Num real

text \<open>
  An \<open>Error\<close> object as the code reads it: \<open>err.message\<close> and \<open>err.stack\<close>.
  The text of a stack trace is produced by the engine and not modelled:
  \<open>new Error(m)\<close> is the error with message \<open>m\<close>.
\<close>

record js_error =
  message :: string
  stack :: "string option"

definition new_Error :: "string \<Rightarrow> js_error" where
  "new_Error m = \<lparr>message = m, stack = None\<rparr>"

datatype jsval =
    JUndefined
  | JStr string
  | JNumber jsnum
  | JBool bool
  | JErr js_error
  | JObj "(string \<times> jsval) list"

definition opt_str :: "string option \<Rightarrow> jsval" where
  "opt_str s = (case s of None \<Rightarrow> JUndefined | Some v \<Rightarrow> JStr v)"

section \<open>config/index.ts: configuration from the environment\<close>

text \<open>
  \<open>process.env\<close> after \<open>dotenv.config\<close> has run: a variable is unset
  (\<open>undefined\<close>) or holds a string, which may be empty.
\<close>

type_synonym process_env = "string \<rightharpoonup> string"

text \<open>\<open>process.env.K || d\<close>: \<open>undefined\<close> and the empty string are both falsy.\<close>

definition env_or :: "process_env \<Rightarrow> string \<Rightarrow> string \<Rightarrow> string" where
  "env_or env k d = (case env k of None \<Rightarrow> d | Some v \<Rightarrow> if v = [] then d else v)"

text \<open>
  \<open>parseInt(s, 10)\<close>: leading white space is skipped, one sign is read, then the longest
  run of decimal digits; no digit gives \<open>NaN\<close>. Characters stand for code units below 256,
  where the white space of ECMAScript is TAB, LF, VT, FF, CR, SP and NBSP.
\<close>

definition is_js_space :: "char \<Rightarrow> bool" where
  "is_js_space c = ((of_char c :: nat) \<in> {9, 10, 11, 12, 13, 32, 160})"

definition is_digit :: "char \<Rightarrow> bool" where
  "is_digit c = (48 \<le> (of_char c :: nat) \<and> (of_char c :: nat) \<le> 57)"

definition digit_val :: "char \<Rightarrow> int" where
  "digit_val c = int (of_char c) - 48"

definition digits_val :: "string \<Rightarrow> int" where
  "digits_val ds = foldl (\<lambda>a c. 10 * a + digit_val c) 0 ds"

definition parseInt10 :: "string \<Rightarrow> jsnum" where
  "parseInt10 s =
     (let t = dropWhile is_js_space s;
          neg = (t \<noteq> [] \<and> hd t = CHR ''-'');
          u = (if t \<noteq> [] \<and> (hd t = CHR ''-'' \<or> hd t = CHR ''+'') then tl t else t);
          ds = takeWhile is_digit u
      in if ds = [] then NaN
         else Num (of_int ((if neg then - 1 else 1) * digits_val ds)))"

record server_config =
  nodeEnv :: string
  port :: jsnum
  apiPrefix :: string

record database_config =
  host :: string
  port :: jsnum
  name :: string
  user :: string
  password :: string
  poolMin :: jsnum
  poolMax :: jsnum

record redis_config =
  host :: string
  port :: jsnum
  password :: string
  db :: jsnum

record jwt_config =
  secret :: string
  expiresIn :: string
  refreshExpiresIn :: string

record session_config =
  timeoutMinutes :: jsnum
  warningMinutes :: jsnum
  maxDurationHours :: jsnum

record security_config =
  bcryptRounds :: jsnum
  maxLoginAttempts :: jsnum
  lockoutDurationMinutes :: jsnum
  rateLimitWindowMinutes :: jsnum
  rateLimitMaxRequests :: jsnum
  authRateLimitWindowMinutes :: jsnum
  authRateLimitMaxAttempts :: jsnum

record cors_config =
  origin :: string
  credentials :: bool

record logging_config =
  level :: string
  filePath :: string

record config =
  server :: server_config
  database :: database_config
  redis :: redis_config
  jwt :: jwt_config
  session :: session_config
  security :: security_config
  cors :: cors_config
  logging :: logging_config

text \<open>The object literal \<open>const config: Config = { ... }\<close>, field by field.\<close>

definition build_config :: "process_env \<Rightarrow> config" where
  "build_config env =
     \<lparr>server =
        \<lparr>nodeEnv = env_or env ''NODE_ENV'' ''development'',
         server_config.port = parseInt10 (env_or env ''PORT'' ''3000''),
         apiPrefix = env_or env ''API_PREFIX'' ''/api''\<rparr>,
      database =
        \<lparr>database_config.host = env_or env ''DB_HOST'' ''localhost'',
         database_config.port = parseInt10 (env_or env ''DB_PORT'' ''5432''),
         name = env_or env ''DB_NAME'' ''ward_manager'',
         user = env_or env ''DB_USER'' ''postgres'',
         database_config.password = env_or env ''DB_PASSWORD'' ''postgres'',
         poolMin = parseInt10 (env_or env ''DB_POOL_MIN'' ''2''),
         poolMax = parseInt10 (env_or env ''DB_POOL_MAX'' ''10'')\<rparr>,
      redis =
        \<lparr>redis_config.host = env_or env ''REDIS_HOST'' ''localhost'',
         redis_config.port = parseInt10 (env_or env ''REDIS_PORT'' ''6379''),
         redis_config.password = env_or env ''REDIS_PASSWORD'' '''',
         db = parseInt10 (env_or env ''REDIS_DB'' ''0'')\<rparr>,
      jwt =
        \<lparr>secret = env_or env ''JWT_SECRET'' ''your-secret-key-change-in-production'',
         expiresIn = env_or env ''JWT_EXPIRES_IN'' ''30m'',
         refreshExpiresIn = env_or env ''JWT_REFRESH_EXPIRES_IN'' ''7d''\<rparr>,
      session =
        \<lparr>timeoutMinutes = parseInt10 (env_or env ''SESSION_TIMEOUT_MINUTES'' ''30''),
         warningMinutes = parseInt10 (env_or env ''SESSION_WARNING_MINUTES'' ''5''),
         maxDurationHours = parseInt10 (env_or env ''SESSION_MAX_DURATION_HOURS'' ''12'')\<rparr>,
      security =
        \<lparr>bcryptRounds = parseInt10 (env_or env ''BCRYPT_ROUNDS'' ''12''),
         maxLoginAttempts = parseInt10 (env_or env ''MAX_LOGIN_ATTEMPTS'' ''5''),
         lockoutDurationMinutes = parseInt10 (env_or env ''LOCKOUT_DURATION_MINUTES'' ''15''),
         rateLimitWindowMinutes = parseInt10 (env_or env ''RATE_LIMIT_WINDOW_MINUTES'' ''1''),
         rateLimitMaxRequests = parseInt10 (env_or env ''RATE_LIMIT_MAX_REQUESTS'' ''100''),
         authRateLimitWindowMinutes =
           parseInt10 (env_or env ''AUTH_RATE_LIMIT_WINDOW_MINUTES'' ''15''),
         authRateLimitMaxAttempts =
           parseInt10 (env_or env ''AUTH_RATE_LIMIT_MAX_ATTEMPTS'' ''5'')\<rparr>,
      cors =
        \<lparr>origin = env_or env ''CORS_ORIGIN'' ''http://localhost:5173'',
         credentials = (env ''CORS_CREDENTIALS'' = Some ''true'')\<rparr>,
      logging =
        \<lparr>level = env_or env ''LOG_LEVEL'' ''info'',
         filePath = env_or env ''LOG_FILE_PATH'' ''./logs/app.log''\<rparr>\<rparr>"

text \<open>The validation block after the literal; a \<open>throw\<close> is the left injection.\<close>

definition validate_config :: "config \<Rightarrow> js_error + unit" where
  "validate_config c =
     (if nodeEnv (server c) = ''production'' then
        if secret (jwt c) = ''your-secret-key-change-in-production''
        then Inl (new_Error ''JWT_SECRET must be set in production environment'')
        else if database_config.password (database c) = []
                \<or> database_config.password (database c) = ''postgres''
        then Inl (new_Error ''DB_PASSWORD must be set securely in production environment'')
        else Inr ()
      else Inr ())"

text \<open>Loading the module: build the object, validate it, export it.\<close>

definition load_config :: "process_env \<Rightarrow> js_error + config" where
  "load_config env =
     (let c = build_config env
      in case validate_config c of Inl e \<Rightarrow> Inl e | Inr _ \<Rightarrow> Inr c)"

section \<open>utils/logger.ts: the log\<close>

text \<open>
  The log is the sequence of calls made to the logger, each with its level, its message
  and the metadata object passed along (\<open>JUndefined\<close> when there is none). What the
  winston transports then write is outside the model.
\<close>

datatype log_level = LError | LWarn | LInfo | LDebug

record log_entry =
  severity :: log_level
  text_of :: string
  meta :: jsval

type_synonym log = "log_entry list"

definition logger_call :: "log_level \<Rightarrow> string \<Rightarrow> jsval \<Rightarrow> log \<Rightarrow> log" where
  "logger_call l m x lg = lg @ [\<lparr>severity = l, text_of = m, meta = x\<rparr>]"

section \<open>app.ts: the Express application\<close>

text \<open>
  A request as the handlers read it: \<open>req.method\<close>, \<open>req.path\<close>, \<open>req.ip\<close> and
  \<open>req.get('user-agent')\<close>. A response is what a handler passes to
  \<open>res.status(..).json(..)\<close>: the status code and the JSON document.
\<close>

record request =
  httpMethod :: string
  path :: string
  ip :: "string option"
  userAgent :: "string option"

record response =
  status :: nat
  body :: jsval

text \<open>
  The clock and the process as a handler reads them: \<open>new Date().toISOString()\<close> and
  \<open>process.uptime()\<close>.
\<close>

record runtime =
  now_iso :: string
  uptime :: real

text \<open>
  What a middleware function does with a request: it calls \<open>next()\<close>, it calls
  \<open>next(err)\<close> (or throws, which Express turns into \<open>next(err)\<close>), or it sends a
  response and calls nothing.
\<close>

datatype step = Next | NextErr js_error | Send response

type_synonym handler = "request \<Rightarrow> log \<Rightarrow> step \<times> log"

type_synonym error_handler = "js_error \<Rightarrow> request \<Rightarrow> log \<Rightarrow> step \<times> log"

text \<open>
  The layers of an Express application, in registration order: \<open>app.use(fn)\<close> with a
  function of fewer than four parameters, \<open>app.get(path, fn)\<close>, and \<open>app.use(fn)\<close>
  with a function of four parameters, which Express treats as an error handler.
\<close>

datatype layer = Use handler | Get string handler | UseErr error_handler

datatype outcome = Responded response | FellThrough "js_error option"

text \<open>
  Route matching as Express does it with its default settings, which the application
  never changes (\<open>case sensitive routing\<close> and \<open>strict routing\<close> are both off): the
  path is compared without regard to the case of ASCII letters, one trailing slash is
  optional, and a \<open>HEAD\<close> request is served by the \<open>GET\<close> handler of a route that
  has no \<open>HEAD\<close> handler of its own. The pattern is a literal path without a trailing
  slash, as \<open>'/health'\<close> is.
\<close>

definition lower_char :: "char \<Rightarrow> char" where
  "lower_char c =
     (let n = (of_char c :: nat) in if 65 \<le> n \<and> n \<le> 90 then char_of (n + 32) else c)"

definition toLowerCase :: "string \<Rightarrow> string" where
  "toLowerCase s = map lower_char s"

definition handles_get :: "string \<Rightarrow> bool" where
  "handles_get m =
     (let nm = toLowerCase m;
          nm' = (if nm = ''head'' then ''get'' else nm)
      in nm' = ''get'')"

definition path_matches :: "string \<Rightarrow> string \<Rightarrow> bool" where
  "path_matches pat p =
     (toLowerCase p = toLowerCase pat \<or> toLowerCase p = toLowerCase pat @ ''/'')"

text \<open>
  The router: layers are tried in order. Without a pending error, error handlers are
  skipped; with one, everything but error handlers is skipped. Running off the end of
  the stack leaves the request to the default handler of Express.
\<close>

fun dispatch :: "layer list \<Rightarrow> js_error option \<Rightarrow> request \<Rightarrow> log \<Rightarrow> outcome \<times> log" where
  "dispatch [] err r lg = (FellThrough err, lg)"
| "dispatch (Use h # ls) None r lg =
     (case h r lg of
        (Next, lg') \<Rightarrow> dispatch ls None r lg'
      | (NextErr e, lg') \<Rightarrow> dispatch ls (Some e) r lg'
      | (Send res, lg') \<Rightarrow> (Responded res, lg'))"
| "dispatch (Get pat h # ls) None r lg =
     (if handles_get (httpMethod r) \<and> path_matches pat (path r) then
        (case h r lg of
           (Next, lg') \<Rightarrow> dispatch ls None r lg'
         | (NextErr e, lg') \<Rightarrow> dispatch ls (Some e) r lg'
         | (Send res, lg') \<Rightarrow> (Responded res, lg'))
      else dispatch ls None r lg)"
| "dispatch (UseErr h # ls) None r lg = dispatch ls None r lg"
| "dispatch (Use h # ls) (Some e) r lg = dispatch ls (Some e) r lg"
| "dispatch (Get pat h # ls) (Some e) r lg = dispatch ls (Some e) r lg"
| "dispatch (UseErr h # ls) (Some e) r lg =
     (case h e r lg of
        (Next, lg') \<Rightarrow> dispatch ls None r lg'
      | (NextErr e', lg') \<Rightarrow> dispatch ls (Some e') r lg'
      | (Send res, lg') \<Rightarrow> (Responded res, lg'))"

text \<open>
  The middleware of other packages, as the values the application registers:
  \<open>helmet()\<close>, \<open>cors({origin, credentials})\<close>, \<open>express.json()\<close> and
  \<open>express.urlencoded({extended: true})\<close>. Their code is not part of the repository;
  each is a parameter that decides, per request, how it hands the request on.
\<close>

record third_party =
  helmet :: "request \<Rightarrow> step"
  cors_pkg :: "string \<Rightarrow> bool \<Rightarrow> request \<Rightarrow> step"
  express_json :: "request \<Rightarrow> step"
  express_urlencoded :: "bool \<Rightarrow> request \<Rightarrow> step"

definition request_logger :: handler where
  "request_logger r lg =
     (Next,
      logger_call LInfo (httpMethod r @ '' '' @ path r)
        (JObj [(''ip'', opt_str (ip r)), (''userAgent'', opt_str (userAgent r))]) lg)"

definition initializeMiddleware :: "third_party \<Rightarrow> config \<Rightarrow> layer list" where
  "initializeMiddleware tp cfg =
     [Use (\<lambda>r lg. (helmet tp r, lg)),
      Use (\<lambda>r lg. (cors_pkg tp (origin (cors cfg)) (credentials (cors cfg)) r, lg)),
      Use (\<lambda>r lg. (express_json tp r, lg)),
      Use (\<lambda>r lg. (express_urlencoded tp True r, lg)),
      Use request_logger]"

definition health_handler :: "runtime \<Rightarrow> handler" where
  "health_handler rt r lg =
     (Send \<lparr>status = 200,
            body = JObj [(''status'', JStr ''ok''),
                         (''timestamp'', JStr (now_iso rt)),
                         (''uptime'', JNumber (Num (uptime rt)))]\<rparr>,
      lg)"

definition initializeRoutes :: "runtime \<Rightarrow> layer list" where
  "initializeRoutes rt = [Get ''/health'' (health_handler rt)]"

definition not_found_handler :: "runtime \<Rightarrow> handler" where
  "not_found_handler rt r lg =
     (Send \<lparr>status = 404,
            body = JObj [(''error'',
                     JObj [(''code'', JStr ''NOT_FOUND''),
                           (''message'', JStr ''The requested resource was not found''),
                           (''timestamp'', JStr (now_iso rt))])]\<rparr>,
      lg)"

definition global_error_handler :: "config \<Rightarrow> runtime \<Rightarrow> error_handler" where
  "global_error_handler cfg rt err r lg =
     (Send \<lparr>status = 500,
            body = JObj [(''error'',
                     JObj [(''code'', JStr ''INTERNAL_SERVER_ERROR''),
                           (''message'',
                              JStr (if nodeEnv (server cfg) = ''production''
                                    then ''An internal server error occurred''
                                    else message err)),
                           (''timestamp'', JStr (now_iso rt))])]\<rparr>,
      logger_call LError ''Unhandled error:''
        (JObj [(''error'', JStr (message err)),
               (''stack'', opt_str (stack err)),
               (''path'', JStr (path r)),
               (''method'', JStr (httpMethod r))]) lg)"

definition initializeErrorHandling :: "config \<Rightarrow> runtime \<Rightarrow> layer list" where
  "initializeErrorHandling cfg rt =
     [Use (not_found_handler rt), UseErr (global_error_handler cfg rt)]"

text \<open>The constructor of \<open>App\<close> registers the three groups in this order.\<close>

definition App :: "third_party \<Rightarrow> config \<Rightarrow> runtime \<Rightarrow> layer list" where
  "App tp cfg rt =
     initializeMiddleware tp cfg @ initializeRoutes rt @ initializeErrorHandling cfg rt"

definition handle_request ::
  "third_party \<Rightarrow> config \<Rightarrow> runtime \<Rightarrow> request \<Rightarrow> log \<Rightarrow> outcome \<times> log" where
  "handle_request tp cfg rt r lg = dispatch (App tp cfg rt) None r lg"


text \<open>
  A middleware that does not answer the request itself: it calls \<open>next\<close>, with or
  without an error.
\<close>

definition passes_on :: "step \<Rightarrow> bool" where
  "passes_on st = (case st of Send res \<Rightarrow> False | _ \<Rightarrow> True)"


text \<open>The fields of an error response: \<open>{ error: { code, message, timestamp } }\<close>.\<close>

fun error_envelope :: "jsval \<Rightarrow> (string \<times> jsval \<times> string) option" where
  "error_envelope
     (JObj [(k, JObj [(kc, JStr c), (km, m), (kt, JStr t)])]) =
     (if k = ''error'' \<and> kc = ''code'' \<and> km = ''message'' \<and> kt = ''timestamp''
      then Some (c, m, t) else None)"
| "error_envelope _ = None"

section \<open>config/database.ts: the connection-pool wrapper\<close>

text \<open>
  The \<open>pg\<close> package is outside the repository. A driver gives the result of each of
  its calls the wrapper makes, at the time of that call: a value, or the error it
  throws or rejects with. An \<open>async\<close> method that throws rejects its promise; both
  are the left injection here.
\<close>

record ('p, 'c, 'r) pg_driver =
  new_Pool :: "jsval \<Rightarrow> js_error + 'p"
  pool_connect :: "'p \<Rightarrow> js_error + 'c"
  pool_query :: "'p \<Rightarrow> string \<Rightarrow> jsval list option \<Rightarrow> js_error + 'r"
  pool_end :: "'p \<Rightarrow> js_error + unit"
  client_query :: "'c \<Rightarrow> string \<Rightarrow> js_error + 'r"
  client_release :: "'c \<Rightarrow> js_error + unit"
  rowCount :: "'r \<Rightarrow> jsval"

record 'p Database =
  pool :: "'p option"

definition new_Database :: "'p Database" where
  "new_Database = \<lparr>pool = None\<rparr>"

definition pool_options :: "config \<Rightarrow> jsval" where
  "pool_options cfg =
     JObj [(''host'', JStr (database_config.host (database cfg))),
           (''port'', JNumber (database_config.port (database cfg))),
           (''database'', JStr (name (database cfg))),
           (''user'', JStr (user (database cfg))),
           (''password'', JStr (database_config.password (database cfg))),
           (''min'', JNumber (poolMin (database cfg))),
           (''max'', JNumber (poolMax (database cfg))),
           (''idleTimeoutMillis'', JNumber (Num 30000)),
           (''connectionTimeoutMillis'', JNumber (Num 2000))]"

definition Database_connect_failed ::
  "js_error \<Rightarrow> 'p Database \<Rightarrow> log \<Rightarrow> (js_error + unit) \<times> 'p Database \<times> log" where
  "Database_connect_failed e s lg =
     (Inl e, s, logger_call LError ''Failed to connect to database:'' (JErr e) lg)"

definition Database_connect ::
  "('p, 'c, 'r) pg_driver \<Rightarrow> config \<Rightarrow> 'p Database \<Rightarrow> log
     \<Rightarrow> (js_error + unit) \<times> 'p Database \<times> log" where
  "Database_connect drv cfg s lg =
     (case new_Pool drv (pool_options cfg) of
        Inl e \<Rightarrow> Database_connect_failed e s lg
      | Inr p \<Rightarrow>
          (let s' = s\<lparr>pool := Some p\<rparr> in
           case pool_connect drv p of
             Inl e \<Rightarrow> Database_connect_failed e s' lg
           | Inr c \<Rightarrow>
               (case client_query drv c ''SELECT NOW()'' of
                  Inl e \<Rightarrow> Database_connect_failed e s' lg
                | Inr _ \<Rightarrow>
                    (case client_release drv c of
                       Inl e \<Rightarrow> Database_connect_failed e s' lg
                     | Inr _ \<Rightarrow>
                         (Inr (), s',
                          logger_call LInfo
                            ''Database connection pool established successfully''
                            JUndefined lg)))))"

definition Database_getClient ::
  "('p, 'c, 'r) pg_driver \<Rightarrow> 'p Database \<Rightarrow> log \<Rightarrow> (js_error + 'c) \<times> 'p Database \<times> log" where
  "Database_getClient drv s lg =
     (case pool s of
        None \<Rightarrow> (Inl (new_Error ''Database pool not initialized. Call connect() first.''), s, lg)
      | Some p \<Rightarrow> (pool_connect drv p, s, lg))"

text \<open>\<open>t0\<close> and \<open>t1\<close> are the two readings of \<open>Date.now()\<close>.\<close>

definition Database_query ::
  "('p, 'c, 'r) pg_driver \<Rightarrow> int \<Rightarrow> int \<Rightarrow> string \<Rightarrow> jsval list option \<Rightarrow> 'p Database \<Rightarrow> log
     \<Rightarrow> (js_error + 'r) \<times> 'p Database \<times> log" where
  "Database_query drv t0 t1 txt params s lg =
     (case pool s of
        None \<Rightarrow> (Inl (new_Error ''Database pool not initialized. Call connect() first.''), s, lg)
      | Some p \<Rightarrow>
          (case pool_query drv p txt params of
             Inr res \<Rightarrow>
               (Inr res, s,
                logger_call LDebug ''Executed query''
                  (JObj [(''text'', JStr txt),
                         (''duration'', JNumber (Num (of_int (t1 - t0)))),
                         (''rows'', rowCount drv res)]) lg)
           | Inl e \<Rightarrow>
               (Inl e, s,
                logger_call LError ''Query error:''
                  (JObj [(''text'', JStr txt), (''error'', JErr e)]) lg)))"

definition Database_disconnect ::
  "('p, 'c, 'r) pg_driver \<Rightarrow> 'p Database \<Rightarrow> log \<Rightarrow> (js_error + unit) \<times> 'p Database \<times> log" where
  "Database_disconnect drv s lg =
     (case pool s of
        None \<Rightarrow> (Inr (), s, lg)
      | Some p \<Rightarrow>
          (case pool_end drv p of
             Inl e \<Rightarrow> (Inl e, s, lg)
           | Inr _ \<Rightarrow>
               (Inr (), s\<lparr>pool := None\<rparr>,
                logger_call LInfo ''Database connection pool closed'' JUndefined lg)))"

definition Database_getPool :: "'p Database \<Rightarrow> log \<Rightarrow> (js_error + 'p) \<times> 'p Database \<times> log" where
  "Database_getPool s lg =
     (case pool s of
        None \<Rightarrow> (Inl (new_Error ''Database pool not initialized. Call connect() first.''), s, lg)
      | Some p \<Rightarrow> (Inr p, s, lg))"

section \<open>config/redis.ts: the Redis client wrapper\<close>

text \<open>
  The \<open>redis\<close> package, taken the same way. A client emits events while one of its
  calls is awaited; \<open>connect\<close> installs four listeners on the new client, for
  \<open>'error'\<close>, \<open>'connect'\<close>, \<open>'ready'\<close> and \<open>'reconnecting'\<close>, and each logs
  one line. So every call on a client answers with the events emitted meanwhile, in
  order, and its result. Events without a listener are left out.
\<close>

datatype redis_event = EvError js_error | EvConnect | EvReady | EvReconnecting

type_synonym 'a redis_reply = "redis_event list \<times> (js_error + 'a)"

record 'k redis_driver =
  createClient :: "jsval \<Rightarrow> js_error + 'k"
  client_connect :: "'k \<Rightarrow> unit redis_reply"
  client_ping :: "'k \<Rightarrow> unit redis_reply"
  client_setEx :: "'k \<Rightarrow> string \<Rightarrow> jsnum \<Rightarrow> string \<Rightarrow> unit redis_reply"
  client_set :: "'k \<Rightarrow> string \<Rightarrow> string \<Rightarrow> unit redis_reply"
  client_get :: "'k \<Rightarrow> string \<Rightarrow> (string option) redis_reply"
  client_del :: "'k \<Rightarrow> string \<Rightarrow> unit redis_reply"
  client_exists :: "'k \<Rightarrow> string \<Rightarrow> jsnum redis_reply"
  client_expire :: "'k \<Rightarrow> string \<Rightarrow> jsnum \<Rightarrow> unit redis_reply"
  client_quit :: "'k \<Rightarrow> unit redis_reply"

record 'k RedisClient =
  client :: "'k option"

definition new_RedisClient :: "'k RedisClient" where
  "new_RedisClient = \<lparr>client = None\<rparr>"

definition redisConfig :: "config \<Rightarrow> jsval" where
  "redisConfig cfg =
     JObj ([(''socket'', JObj [(''host'', JStr (redis_config.host (redis cfg))),
                              (''port'', JNumber (redis_config.port (redis cfg)))]),
            (''database'', JNumber (db (redis cfg)))]
           @ (if redis_config.password (redis cfg) \<noteq> []
              then [(''password'', JStr (redis_config.password (redis cfg)))] else []))"

text \<open>The four listeners, and their effect on the log for a run of events.\<close>

definition redis_listener :: "redis_event \<Rightarrow> log \<Rightarrow> log" where
  "redis_listener ev lg =
     (case ev of
        EvError err \<Rightarrow> logger_call LError ''Redis client error:'' (JErr err) lg
      | EvConnect \<Rightarrow> logger_call LInfo ''Redis client connecting...'' JUndefined lg
      | EvReady \<Rightarrow> logger_call LInfo ''Redis client ready'' JUndefined lg
      | EvReconnecting \<Rightarrow> logger_call LWarn ''Redis client reconnecting...'' JUndefined lg)"

definition redis_listeners :: "redis_event list \<Rightarrow> log \<Rightarrow> log" where
  "redis_listeners evs lg = foldl (\<lambda>l ev. redis_listener ev l) lg evs"

definition RedisClient_connect_failed ::
  "js_error \<Rightarrow> 'k RedisClient \<Rightarrow> log \<Rightarrow> (js_error + unit) \<times> 'k RedisClient \<times> log" where
  "RedisClient_connect_failed e s lg =
     (Inl e, s, logger_call LError ''Failed to connect to Redis:'' (JErr e) lg)"

definition RedisClient_connect ::
  "'k redis_driver \<Rightarrow> config \<Rightarrow> 'k RedisClient \<Rightarrow> log
     \<Rightarrow> (js_error + unit) \<times> 'k RedisClient \<times> log" where
  "RedisClient_connect drv cfg s lg =
     (case createClient drv (redisConfig cfg) of
        Inl e \<Rightarrow> RedisClient_connect_failed e s lg
      | Inr k \<Rightarrow>
          (let s' = s\<lparr>client := Some k\<rparr>;
               lg1 = redis_listeners (fst (client_connect drv k)) lg
           in case snd (client_connect drv k) of
                Inl e \<Rightarrow> RedisClient_connect_failed e s' lg1
              | Inr _ \<Rightarrow>
                  (let lg2 = redis_listeners (fst (client_ping drv k)) lg1
                   in case snd (client_ping drv k) of
                        Inl e \<Rightarrow> RedisClient_connect_failed e s' lg2
                      | Inr _ \<Rightarrow>
                          (Inr (), s',
                           logger_call LInfo ''Redis connection established successfully''
                             JUndefined lg2))))"

definition not_initialized :: js_error where
  "not_initialized = new_Error ''Redis client not initialized. Call connect() first.''"

definition RedisClient_getClient ::
  "'k RedisClient \<Rightarrow> log \<Rightarrow> (js_error + 'k) \<times> 'k RedisClient \<times> log" where
  "RedisClient_getClient s lg =
     (case client s of
        None \<Rightarrow> (Inl not_initialized, s, lg)
      | Some k \<Rightarrow> (Inr k, s, lg))"

text \<open>
  The result of a \<open>try { await call } catch (error) { logger.error(m, {key, error});
  throw error }\<close> block around one library call: the listeners log the events of the
  call, then the \<open>catch\<close> logs its error.
\<close>

definition logged_call ::
  "string \<Rightarrow> string \<Rightarrow> 'a redis_reply \<Rightarrow> 's \<Rightarrow> log \<Rightarrow> (js_error + 'a) \<times> 's \<times> log" where
  "logged_call m key reply s lg =
     (let lg' = redis_listeners (fst reply) lg
      in case snd reply of
           Inl e \<Rightarrow>
             (Inl e, s,
              logger_call LError m (JObj [(''key'', JStr key), (''error'', JErr e)]) lg')
         | Inr v \<Rightarrow> (Inr v, s, lg'))"

text \<open>\<open>if (expirationSeconds)\<close>: a number is truthy unless it is zero or \<open>NaN\<close>.\<close>

definition truthy_num :: "jsnum \<Rightarrow> bool" where
  "truthy_num n = (case n of NaN \<Rightarrow> False | Num x \<Rightarrow> x \<noteq> 0)"

definition RedisClient_set ::
  "'k redis_driver \<Rightarrow> string \<Rightarrow> string \<Rightarrow> jsnum option \<Rightarrow> 'k RedisClient \<Rightarrow> log
     \<Rightarrow> (js_error + unit) \<times> 'k RedisClient \<times> log" where
  "RedisClient_set drv key val expirationSeconds s lg =
     (case client s of
        None \<Rightarrow> (Inl not_initialized, s, lg)
      | Some k \<Rightarrow>
          logged_call ''Redis SET error:'' key
            (case expirationSeconds of
               None \<Rightarrow> client_set drv k key val
             | Some n \<Rightarrow>
                 if truthy_num n then client_setEx drv k key n val
                 else client_set drv k key val) s lg)"

definition RedisClient_get ::
  "'k redis_driver \<Rightarrow> string \<Rightarrow> 'k RedisClient \<Rightarrow> log
     \<Rightarrow> (js_error + string option) \<times> 'k RedisClient \<times> log" where
  "RedisClient_get drv key s lg =
     (case client s of
        None \<Rightarrow> (Inl not_initialized, s, lg)
      | Some k \<Rightarrow> logged_call ''Redis GET error:'' key (client_get drv k key) s lg)"

definition RedisClient_del ::
  "'k redis_driver \<Rightarrow> string \<Rightarrow> 'k RedisClient \<Rightarrow> log
     \<Rightarrow> (js_error + unit) \<times> 'k RedisClient \<times> log" where
  "RedisClient_del drv key s lg =
     (case client s of
        None \<Rightarrow> (Inl not_initialized, s, lg)
      | Some k \<Rightarrow> logged_call ''Redis DEL error:'' key (client_del drv k key) s lg)"

definition RedisClient_exists ::
  "'k redis_driver \<Rightarrow> string \<Rightarrow> 'k RedisClient \<Rightarrow> log
     \<Rightarrow> (js_error + bool) \<times> 'k RedisClient \<times> log" where
  "RedisClient_exists drv key s lg =
     (case client s of
        None \<Rightarrow> (Inl not_initialized, s, lg)
      | Some k \<Rightarrow>
          logged_call ''Redis EXISTS error:'' key
            (fst (client_exists drv k key),
             (case snd (client_exists drv k key) of
                Inl e \<Rightarrow> Inl e
              | Inr n \<Rightarrow> Inr (n = Num 1))) s lg)"

definition RedisClient_expire ::
  "'k redis_driver \<Rightarrow> string \<Rightarrow> jsnum \<Rightarrow> 'k RedisClient \<Rightarrow> log
     \<Rightarrow> (js_error + unit) \<times> 'k RedisClient \<times> log" where
  "RedisClient_expire drv key seconds s lg =
     (case client s of
        None \<Rightarrow> (Inl not_initialized, s, lg)
      | Some k \<Rightarrow> logged_call ''Redis EXPIRE error:'' key (client_expire drv k key seconds) s lg)"

definition RedisClient_disconnect ::
  "'k redis_driver \<Rightarrow> 'k RedisClient \<Rightarrow> log \<Rightarrow> (js_error + unit) \<times> 'k RedisClient \<times> log" where
  "RedisClient_disconnect drv s lg =
     (case client s of
        None \<Rightarrow> (Inr (), s, lg)
      | Some k \<Rightarrow>
          (let lg' = redis_listeners (fst (client_quit drv k)) lg
           in case snd (client_quit drv k) of
                Inl e \<Rightarrow> (Inl e, s, lg')
              | Inr _ \<Rightarrow>
                  (Inr (), s\<lparr>client := None\<rparr>,
                   logger_call LInfo ''Redis connection closed'' JUndefined lg')))"

section \<open>The Session Manager of the design\<close>

text \<open>
  Modelled from the spec: the Session Manager (section 4.1) is designed in the documents
  and implemented nowhere in the repository; only the \<open>Session\<close> and
  \<open>SessionManager\<close> interface declarations of the design document exist. Times are
  integers on one clock. A session holds the fields the spec's data model names.
\<close>

record session_record =
  token :: string
  userId :: string
  createdAt :: int
  lastActivityAt :: int
  expiresAt :: int

record session_policy =
  idleTimeout :: int
  maxDuration :: int

datatype session_failure = Invalid | Expired

type_synonym session_store = "string \<rightharpoonup> session_record"

text \<open>
  Modelled from the spec: \<open>create\<close> persists a session with
  \<open>expiresAt = now + idleTimeout\<close> and \<open>createdAt = now\<close>. The unguessable token is
  an argument.
\<close>

definition create ::
  "session_policy \<Rightarrow> int \<Rightarrow> string \<Rightarrow> string \<Rightarrow> session_store
     \<Rightarrow> session_record \<times> session_store" where
  "create pol now tok uid st =
     (let s = \<lparr>token = tok, userId = uid, createdAt = now, lastActivityAt = now,
               expiresAt = now + idleTimeout pol\<rparr>
      in (s, st(tok \<mapsto> s)))"

text \<open>
  Modelled from the spec: \<open>validate\<close> fails if the token is unknown, if
  \<open>now > expiresAt\<close>, or if \<open>now > createdAt + maxDuration\<close>.
\<close>

definition validate ::
  "session_policy \<Rightarrow> int \<Rightarrow> session_store \<Rightarrow> string \<Rightarrow> session_failure + session_record" where
  "validate pol now st tok =
     (case st tok of
        None \<Rightarrow> Inl Invalid
      | Some s \<Rightarrow>
          if now > expiresAt s then Inl Expired
          else if now > createdAt s + maxDuration pol then Inl Expired
          else Inr s)"

text \<open>
  Modelled from the spec: \<open>renew\<close> extends \<open>expiresAt\<close> to \<open>now + idleTimeout\<close> but
  never past the absolute ceiling \<open>createdAt + maxDuration\<close>, and is a no-op error
  if the session is already expired (or unknown). The activity time moves with it, as
  the data model has the expiry follow \<open>lastActivityAt\<close>.
\<close>

definition renew ::
  "session_policy \<Rightarrow> int \<Rightarrow> session_store \<Rightarrow> string
     \<Rightarrow> (session_failure + session_record) \<times> session_store" where
  "renew pol now st tok =
     (case validate pol now st tok of
        Inl f \<Rightarrow> (Inl f, st)
      | Inr s \<Rightarrow>
          (let s' = s\<lparr>lastActivityAt := now,
                       expiresAt := min (now + idleTimeout pol)
                                        (createdAt s + maxDuration pol)\<rparr>
           in (Inr s', st(tok \<mapsto> s'))))"

section \<open>Reference readings of the configuration rule\<close>

text \<open>
  A configuration field as a plain reading of "the parse of the variable, else the
  default when it is unset" has it.
\<close>

definition parse_else_default ::
  "(string \<Rightarrow> 'a) \<Rightarrow> process_env \<Rightarrow> string \<Rightarrow> 'a \<Rightarrow> 'a" where
  "parse_else_default parse env k d = (case env k of None \<Rightarrow> d | Some v \<Rightarrow> parse v)"

text \<open>The same, with the default also taken when the variable is set to the empty string.\<close>

definition parse_nonempty_else_default ::
  "(string \<Rightarrow> 'a) \<Rightarrow> process_env \<Rightarrow> string \<Rightarrow> 'a \<Rightarrow> 'a" where
  "parse_nonempty_else_default parse env k d =
     (case env k of None \<Rightarrow> d | Some v \<Rightarrow> if v = [] then d else parse v)"

section \<open>The two responses of the application's own routes\<close>

definition health_response :: "runtime \<Rightarrow> response" where
  "health_response rt =
     \<lparr>status = 200,
      body = JObj [(''status'', JStr ''ok''),
                   (''timestamp'', JStr (now_iso rt)),
                   (''uptime'', JNumber (Num (uptime rt)))]\<rparr>"


text \<open>The message an error response shows the client, and the log entry of the handler.\<close>

definition client_message :: "step \<Rightarrow> jsval option" where
  "client_message st =
     (case st of
        Send res \<Rightarrow> (case error_envelope (body res) of None \<Rightarrow> None | Some (c, m, t) \<Rightarrow> Some m)
      | _ \<Rightarrow> None)"

definition unhandled_error_entry :: "js_error \<Rightarrow> request \<Rightarrow> log_entry" where
  "unhandled_error_entry err r =
     \<lparr>severity = LError, text_of = ''Unhandled error:'',
      meta = JObj [(''error'', JStr (message err)),
                   (''stack'', opt_str (stack err)),
                   (''path'', JStr (path r)),
                   (''method'', JStr (httpMethod r))]\<rparr>"

text \<open>The error of the three guarded methods of \<open>Database\<close>.\<close>

definition db_not_initialized :: js_error where
  "db_not_initialized = new_Error ''Database pool not initialized. Call connect() first.''"

section \<open>Concrete inputs\<close>

definition rt0 :: runtime where
  "rt0 = \<lparr>now_iso = ''2024-05-01T12:00:00.000Z'', uptime = 42\<rparr>"

definition dev_config :: config where
  "dev_config = build_config Map.empty"

definition prod_env :: process_env where
  "prod_env = [''NODE_ENV'' \<mapsto> ''production'', ''JWT_SECRET'' \<mapsto> ''k3y'',
               ''DB_PASSWORD'' \<mapsto> ''s3cret'']"

definition prod_config :: config where
  "prod_config = build_config prod_env"

definition req :: "string \<Rightarrow> string \<Rightarrow> request" where
  "req m p = \<lparr>httpMethod = m, path = p, ip = Some ''127.0.0.1'', userAgent = None\<rparr>"

definition missing_jwt_env :: process_env where
  "missing_jwt_env = [''NODE_ENV'' \<mapsto> ''production'', ''DB_PASSWORD'' \<mapsto> ''s3cret'']"

text \<open>Drivers whose every call succeeds.\<close>

definition pg_ok :: "(nat, nat, nat) pg_driver" where
  "pg_ok = \<lparr>new_Pool = (\<lambda>opts. Inr 1), pool_connect = (\<lambda>p. Inr 2),
     pool_query = (\<lambda>p q ps. Inr 3), pool_end = (\<lambda>p. Inr ()),
     client_query = (\<lambda>c q. Inr 3), client_release = (\<lambda>c. Inr ()),
     rowCount = (\<lambda>r. JNumber (Num 1))\<rparr>"

definition redis_ok :: "nat redis_driver" where
  "redis_ok = \<lparr>createClient = (\<lambda>opts. Inr 7),
     client_connect = (\<lambda>k. ([EvConnect, EvReady], Inr ())),
     client_ping = (\<lambda>k. ([], Inr ())), client_setEx = (\<lambda>k key n v. ([], Inr ())),
     client_set = (\<lambda>k key v. ([], Inr ())), client_get = (\<lambda>k key. ([], Inr None)),
     client_del = (\<lambda>k key. ([], Inr ())), client_exists = (\<lambda>k key. ([], Inr (Num 0))),
     client_expire = (\<lambda>k key n. ([], Inr ())), client_quit = (\<lambda>k. ([], Inr ()))\<rparr>"




text \<open>A policy of 30 minutes idle and 12 hours at most, in minutes, and a store with one session.\<close>

definition pol0 :: session_policy where
  "pol0 = \<lparr>idleTimeout = 30, maxDuration = 720\<rparr>"

definition store0 :: session_store where
  "store0 = snd (create pol0 100 ''tok'' ''u1'' Map.empty)"

definition sess1 :: session_record where
  "sess1 = \<lparr>token = ''tok'', userId = ''u1'', createdAt = 100,
             lastActivityAt = 800, expiresAt = 820\<rparr>"

text \<open>A policy whose idle timeout exceeds its maximal duration, and a session made under it.\<close>

definition pol1 :: session_policy where
  "pol1 = \<lparr>idleTimeout = 30, maxDuration = 10\<rparr>"

definition store1 :: session_store where
  "store1 = snd (create pol1 100 ''tok'' ''u1'' Map.empty)"

definition sess_over :: session_record where
  "sess_over = \<lparr>token = ''tok'', userId = ''u1'', createdAt = 100,
                 lastActivityAt = 100, expiresAt = 130\<rparr>"

section \<open>Routing\<close>















section \<open>Error responses\<close>

text \<open>
  C3. Both error responses of the application, that of the 404 handler and that of the
  global error handler, have the shape \<open>{ error: { code, message, timestamp } }\<close>
  with a string code and the timestamp of the clock.
\<close>

theorem error_envelope_uniform:
  "(\<exists>res. not_found_handler rt r lg = (Send res, lg)
      \<and> status res = 404
      \<and> error_envelope (body res) =
          Some (''NOT_FOUND'', JStr ''The requested resource was not found'', now_iso rt))
   \<and> (\<exists>res lg' m. global_error_handler cfg rt err r lg = (Send res, lg')
      \<and> status res = 500
      \<and> error_envelope (body res) = Some (''INTERNAL_SERVER_ERROR'', JStr m, now_iso rt))"
  by (simp add: not_found_handler_def global_error_handler_def)

lemma nodeEnv_prod: "nodeEnv (server prod_config) = ''production''"
  by (simp add: prod_config_def prod_env_def build_config_def env_or_def)

lemma nodeEnv_dev: "nodeEnv (server dev_config) = ''development''"
  by (simp add: dev_config_def build_config_def env_or_def)

text \<open>
  An error that third-party middleware passes to \<open>next\<close> skips the routes and the 404
  handler and is answered by the global error handler.
\<close>

lemma error_reaches_handler:
  assumes "helmet tp r = Next"
    and "cors_pkg tp (origin (cors cfg)) (credentials (cors cfg)) r = Next"
    and "express_json tp r = NextErr err"
  shows "handle_request tp cfg rt r lg =
           (Responded \<lparr>status = 500,
              body = JObj [(''error'',
                       JObj [(''code'', JStr ''INTERNAL_SERVER_ERROR''),
                             (''message'',
                                JStr (if nodeEnv (server cfg) = ''production''
                                      then ''An internal server error occurred''
                                      else message err)),
                             (''timestamp'', JStr (now_iso rt))])]\<rparr>,
            lg @ [unhandled_error_entry err r])"
  using assms
  by (simp add: handle_request_def App_def initializeMiddleware_def initializeRoutes_def
      initializeErrorHandling_def global_error_handler_def unhandled_error_entry_def
      logger_call_def)

text \<open>
  Unless third-party middleware answers the request itself, the application's response is
  the health response or an error envelope with status 404 or 500.
\<close>

lemma app_responses:
  assumes "passes_on (helmet tp r)"
    and "passes_on (cors_pkg tp (origin (cors cfg)) (credentials (cors cfg)) r)"
    and "passes_on (express_json tp r)"
    and "passes_on (express_urlencoded tp True r)"
  shows "\<exists>res. fst (handle_request tp cfg rt r lg) = Responded res
           \<and> (res = health_response rt
               \<or> (\<exists>c m t. error_envelope (body res) = Some (c, JStr m, t)
                     \<and> (status res = 404 \<or> status res = 500)))"
  using assms
  by (cases "helmet tp r"; cases "cors_pkg tp (origin (cors cfg)) (credentials (cors cfg)) r";
      cases "express_json tp r"; cases "express_urlencoded tp True r")
     (simp_all add: passes_on_def handle_request_def App_def initializeMiddleware_def
        initializeRoutes_def initializeErrorHandling_def request_logger_def health_handler_def
        not_found_handler_def global_error_handler_def health_response_def)

text \<open>
  C4, as stated, fails: outside production the client is sent the message of the
  internal error, so two internal errors give two different client messages.
\<close>

theorem generic_message_counterexample:
  "client_message (fst (global_error_handler dev_config rt0
       (new_Error ''connect ECONNREFUSED 10.0.0.5:5432'') (req ''GET'' ''/health'') []))
   \<noteq> client_message (fst (global_error_handler dev_config rt0
       (new_Error ''password authentication failed'') (req ''GET'' ''/health'') []))"
  by (simp add: client_message_def global_error_handler_def dev_config_def build_config_def
      env_or_def new_Error_def)

text \<open>
  C4, amended. For every error reaching the global error handler the response has
  status 500 and the error is logged with its message, stack, path and method. When
  \<open>config.server.nodeEnv\<close> is \<open>'production'\<close> the client's message is the fixed
  text \<open>'An internal server error occurred'\<close> and the whole response is the same for
  any two internal errors; in every other environment the client's message is the
  message of the internal error.
\<close>

theorem error_handler_500:
  "(\<exists>res. global_error_handler cfg rt err r lg = (Send res, lg @ [unhandled_error_entry err r])
      \<and> status res = 500)
   \<and> (nodeEnv (server cfg) = ''production'' \<longrightarrow>
        client_message (fst (global_error_handler cfg rt err r lg)) =
          Some (JStr ''An internal server error occurred'')
        \<and> fst (global_error_handler cfg rt err r lg) = fst (global_error_handler cfg rt err' r lg))
   \<and> (nodeEnv (server cfg) \<noteq> ''production'' \<longrightarrow>
        client_message (fst (global_error_handler cfg rt err r lg)) = Some (JStr (message err)))"
  by (simp add: global_error_handler_def client_message_def unhandled_error_entry_def
      logger_call_def)

theorem error_handler_500_witness:
  "nodeEnv (server prod_config) = ''production''
   \<and> client_message (fst (global_error_handler prod_config rt0
         (new_Error ''connect ECONNREFUSED'') (req ''GET'' ''/health'') [])) =
       Some (JStr ''An internal server error occurred'')
   \<and> nodeEnv (server dev_config) \<noteq> ''production''
   \<and> client_message (fst (global_error_handler dev_config rt0
         (new_Error ''connect ECONNREFUSED'') (req ''GET'' ''/health'') [])) =
       Some (JStr ''connect ECONNREFUSED'')"
proof -
  have p: "client_message (fst (global_error_handler prod_config rt0
         (new_Error ''connect ECONNREFUSED'') (req ''GET'' ''/health'') [])) =
       Some (JStr ''An internal server error occurred'')"
    using error_handler_500 [of prod_config rt0 "new_Error ''connect ECONNREFUSED''"
      "req ''GET'' ''/health''" "[]" "new_Error ''connect ECONNREFUSED''"] nodeEnv_prod
    by blast
  have d: "client_message (fst (global_error_handler dev_config rt0
         (new_Error ''connect ECONNREFUSED'') (req ''GET'' ''/health'') [])) =
       Some (JStr ''connect ECONNREFUSED'')"
    using error_handler_500 [of dev_config rt0 "new_Error ''connect ECONNREFUSED''"
      "req ''GET'' ''/health''" "[]" "new_Error ''connect ECONNREFUSED''"] nodeEnv_dev
    by (simp add: new_Error_def)
  show ?thesis using p d by (simp add: nodeEnv_prod nodeEnv_dev)
qed

section \<open>Configuration\<close>

lemma parseInt10_defaults:
  "parseInt10 ''3000'' = Num 3000" "parseInt10 ''5432'' = Num 5432"
  "parseInt10 ''2'' = Num 2" "parseInt10 ''10'' = Num 10"
  "parseInt10 ''6379'' = Num 6379" "parseInt10 ''0'' = Num 0"
  "parseInt10 ''30'' = Num 30" "parseInt10 ''5'' = Num 5"
  "parseInt10 ''12'' = Num 12" "parseInt10 ''15'' = Num 15"
  "parseInt10 ''1'' = Num 1" "parseInt10 ''100'' = Num 100"
  by (simp_all add: parseInt10_def is_js_space_def is_digit_def digits_val_def digit_val_def)

lemma int_field:
  "parseInt10 d = n \<Longrightarrow> d \<noteq> [] \<Longrightarrow>
   parseInt10 (env_or env k d) = parse_nonempty_else_default parseInt10 env k n"
  by (simp add: env_or_def parse_nonempty_else_default_def split: option.splits)

lemma str_field:
  "env_or env k d = parse_nonempty_else_default (\<lambda>v. v) env k d"
  by (simp add: env_or_def parse_nonempty_else_default_def split: option.splits)

lemma bool_field:
  "(env k = Some ''true'') = parse_nonempty_else_default (\<lambda>v. v = ''true'') env k False"
  by (auto simp add: parse_nonempty_else_default_def split: option.splits)

text \<open>
  C5, as stated, fails: with \<open>PORT\<close> set to the empty string the port is the default
  3000, not the parse of the variable, which is \<open>NaN\<close>.
\<close>

theorem config_from_env_counterexample:
  "server_config.port (server (build_config [''PORT'' \<mapsto> '''']))
   \<noteq> parse_else_default parseInt10 [''PORT'' \<mapsto> ''''] ''PORT'' (Num 3000)"
  by (simp add: build_config_def env_or_def parse_else_default_def parseInt10_defaults)
     (simp add: parseInt10_def)

text \<open>
  C5, amended. For every process environment, each field of the configuration object is
  the parse of its environment variable (\<open>parseInt(_, 10)\<close> for numbers, the string
  itself for strings, equality with \<open>'true'\<close> for \<open>cors.credentials\<close>), and the
  fixed default when the variable is unset or set to the empty string.
\<close>

theorem config_from_env:
  "server (build_config env) =
     \<lparr>nodeEnv = parse_nonempty_else_default (\<lambda>v. v) env ''NODE_ENV'' ''development'',
      server_config.port = parse_nonempty_else_default parseInt10 env ''PORT'' (Num 3000),
      apiPrefix = parse_nonempty_else_default (\<lambda>v. v) env ''API_PREFIX'' ''/api''\<rparr>
   \<and> database (build_config env) =
     \<lparr>database_config.host = parse_nonempty_else_default (\<lambda>v. v) env ''DB_HOST'' ''localhost'',
      database_config.port = parse_nonempty_else_default parseInt10 env ''DB_PORT'' (Num 5432),
      name = parse_nonempty_else_default (\<lambda>v. v) env ''DB_NAME'' ''ward_manager'',
      user = parse_nonempty_else_default (\<lambda>v. v) env ''DB_USER'' ''postgres'',
      database_config.password = parse_nonempty_else_default (\<lambda>v. v) env ''DB_PASSWORD'' ''postgres'',
      poolMin = parse_nonempty_else_default parseInt10 env ''DB_POOL_MIN'' (Num 2),
      poolMax = parse_nonempty_else_default parseInt10 env ''DB_POOL_MAX'' (Num 10)\<rparr>
   \<and> redis (build_config env) =
     \<lparr>redis_config.host = parse_nonempty_else_default (\<lambda>v. v) env ''REDIS_HOST'' ''localhost'',
      redis_config.port = parse_nonempty_else_default parseInt10 env ''REDIS_PORT'' (Num 6379),
      redis_config.password = parse_nonempty_else_default (\<lambda>v. v) env ''REDIS_PASSWORD'' '''',
      db = parse_nonempty_else_default parseInt10 env ''REDIS_DB'' (Num 0)\<rparr>
   \<and> jwt (build_config env) =
     \<lparr>secret = parse_nonempty_else_default (\<lambda>v. v) env ''JWT_SECRET''
                 ''your-secret-key-change-in-production'',
      expiresIn = parse_nonempty_else_default (\<lambda>v. v) env ''JWT_EXPIRES_IN'' ''30m'',
      refreshExpiresIn = parse_nonempty_else_default (\<lambda>v. v) env ''JWT_REFRESH_EXPIRES_IN'' ''7d''\<rparr>
   \<and> session (build_config env) =
     \<lparr>timeoutMinutes = parse_nonempty_else_default parseInt10 env ''SESSION_TIMEOUT_MINUTES'' (Num 30),
      warningMinutes = parse_nonempty_else_default parseInt10 env ''SESSION_WARNING_MINUTES'' (Num 5),
      maxDurationHours =
        parse_nonempty_else_default parseInt10 env ''SESSION_MAX_DURATION_HOURS'' (Num 12)\<rparr>
   \<and> security (build_config env) =
     \<lparr>bcryptRounds = parse_nonempty_else_default parseInt10 env ''BCRYPT_ROUNDS'' (Num 12),
      maxLoginAttempts = parse_nonempty_else_default parseInt10 env ''MAX_LOGIN_ATTEMPTS'' (Num 5),
      lockoutDurationMinutes =
        parse_nonempty_else_default parseInt10 env ''LOCKOUT_DURATION_MINUTES'' (Num 15),
      rateLimitWindowMinutes =
        parse_nonempty_else_default parseInt10 env ''RATE_LIMIT_WINDOW_MINUTES'' (Num 1),
      rateLimitMaxRequests =
        parse_nonempty_else_default parseInt10 env ''RATE_LIMIT_MAX_REQUESTS'' (Num 100),
      authRateLimitWindowMinutes =
        parse_nonempty_else_default parseInt10 env ''AUTH_RATE_LIMIT_WINDOW_MINUTES'' (Num 15),
      authRateLimitMaxAttempts =
        parse_nonempty_else_default parseInt10 env ''AUTH_RATE_LIMIT_MAX_ATTEMPTS'' (Num 5)\<rparr>
   \<and> cors (build_config env) =
     \<lparr>origin = parse_nonempty_else_default (\<lambda>v. v) env ''CORS_ORIGIN'' ''http://localhost:5173'',
      credentials =
        parse_nonempty_else_default (\<lambda>v. v = ''true'') env ''CORS_CREDENTIALS'' False\<rparr>
   \<and> logging (build_config env) =
     \<lparr>level = parse_nonempty_else_default (\<lambda>v. v) env ''LOG_LEVEL'' ''info'',
      filePath = parse_nonempty_else_default (\<lambda>v. v) env ''LOG_FILE_PATH'' ''./logs/app.log''\<rparr>"
  unfolding build_config_def
  by (simp add: int_field [OF parseInt10_defaults(1)] int_field [OF parseInt10_defaults(2)]
      int_field [OF parseInt10_defaults(3)] int_field [OF parseInt10_defaults(4)]
      int_field [OF parseInt10_defaults(5)] int_field [OF parseInt10_defaults(6)]
      int_field [OF parseInt10_defaults(7)] int_field [OF parseInt10_defaults(8)]
      int_field [OF parseInt10_defaults(9)] int_field [OF parseInt10_defaults(10)]
      int_field [OF parseInt10_defaults(11)] int_field [OF parseInt10_defaults(12)]
      str_field [symmetric] bool_field [symmetric])


text \<open>
  C6. When \<open>config.server.nodeEnv\<close> is \<open>'production'\<close>, loading the configuration
  throws exactly when the JWT secret is the placeholder
  \<open>'your-secret-key-change-in-production'\<close> or the database password is empty or
  \<open>'postgres'\<close>; in every other environment loading returns the configuration object.
\<close>

theorem production_validation:
  "(nodeEnv (server (build_config env)) = ''production'' \<longrightarrow>
      ((\<exists>e. load_config env = Inl e) \<longleftrightarrow>
         secret (jwt (build_config env)) = ''your-secret-key-change-in-production''
         \<or> database_config.password (database (build_config env)) = []
         \<or> database_config.password (database (build_config env)) = ''postgres''))
   \<and> (nodeEnv (server (build_config env)) \<noteq> ''production'' \<longrightarrow>
      load_config env = Inr (build_config env))"
  by (simp add: load_config_def validate_config_def Let_def)

lemma load_prod: "load_config prod_env = Inr prod_config"
  by (simp add: load_config_def validate_config_def prod_config_def prod_env_def
      build_config_def env_or_def)

lemma load_missing_jwt:
  "load_config missing_jwt_env = Inl (new_Error ''JWT_SECRET must be set in production environment'')"
  by (simp add: load_config_def validate_config_def missing_jwt_env_def
      build_config_def env_or_def)

theorem production_validation_witness:
  "nodeEnv (server (build_config missing_jwt_env)) = ''production''
   \<and> secret (jwt (build_config missing_jwt_env)) = ''your-secret-key-change-in-production''
   \<and> (\<exists>e. load_config missing_jwt_env = Inl e)
   \<and> nodeEnv (server (build_config Map.empty)) \<noteq> ''production''
   \<and> load_config Map.empty = Inr (build_config Map.empty)"
proof -
  have n: "nodeEnv (server (build_config missing_jwt_env)) = ''production''"
    by (simp add: missing_jwt_env_def build_config_def env_or_def)
  have j: "secret (jwt (build_config missing_jwt_env)) = ''your-secret-key-change-in-production''"
    by (simp add: missing_jwt_env_def build_config_def env_or_def)
  have d: "nodeEnv (server (build_config Map.empty)) \<noteq> ''production''"
    by (simp add: build_config_def env_or_def)
  from production_validation [of missing_jwt_env] n j
  have t: "\<exists>e. load_config missing_jwt_env = Inl e" by blast
  from production_validation [of Map.empty] d
  have l: "load_config Map.empty = Inr (build_config Map.empty)" by blast
  from n j t d l show ?thesis by blast
qed

section \<open>The wrappers without a connection\<close>

text \<open>
  A wrapper holds no connection when it is new and when a \<open>disconnect\<close> has returned.
\<close>

lemma new_wrappers_hold_nothing:
  "pool new_Database = None" "client new_RedisClient = None"
  by (simp_all add: new_Database_def new_RedisClient_def)



text \<open>
  C7. While no connection is held, every guarded operation of the two wrappers
  (\<open>getClient\<close>, \<open>query\<close>, \<open>getPool\<close> of \<open>Database\<close>; \<open>getClient\<close>, \<open>set\<close>,
  \<open>get\<close>, \<open>del\<close>, \<open>exists\<close>, \<open>expire\<close> of \<open>RedisClient\<close>) throws the error
  that says the pool or client is not initialized, and leaves the wrapper and the log
  as they were; none returns a result.
\<close>

theorem not_initialized_throws:
  assumes "pool d = None" and "client rc = None"
  shows "Database_getClient pg d lg = (Inl db_not_initialized, d, lg)
    \<and> Database_query pg t0 t1 txt params d lg = (Inl db_not_initialized, d, lg)
    \<and> Database_getPool d lg = (Inl db_not_initialized, d, lg)
    \<and> RedisClient_getClient rc lg = (Inl not_initialized, rc, lg)
    \<and> RedisClient_set rd key val ex rc lg = (Inl not_initialized, rc, lg)
    \<and> RedisClient_get rd key rc lg = (Inl not_initialized, rc, lg)
    \<and> RedisClient_del rd key rc lg = (Inl not_initialized, rc, lg)
    \<and> RedisClient_exists rd key rc lg = (Inl not_initialized, rc, lg)
    \<and> RedisClient_expire rd key secs rc lg = (Inl not_initialized, rc, lg)"
  using assms
  by (simp add: Database_getClient_def Database_query_def Database_getPool_def
      RedisClient_getClient_def RedisClient_set_def RedisClient_get_def RedisClient_del_def
      RedisClient_exists_def RedisClient_expire_def db_not_initialized_def)

theorem not_initialized_throws_witness:
  "pool (new_Database :: nat Database) = None \<and> client (new_RedisClient :: nat RedisClient) = None
   \<and> Database_query pg_ok 0 5 ''SELECT 1'' None new_Database [] =
        (Inl (new_Error ''Database pool not initialized. Call connect() first.''), new_Database, [])
   \<and> RedisClient_get redis_ok ''k'' new_RedisClient [] =
        (Inl (new_Error ''Redis client not initialized. Call connect() first.''), new_RedisClient, [])
   \<and> pool (fst (snd (Database_disconnect pg_ok \<lparr>pool = Some 1\<rparr> []))) = None
   \<and> client (fst (snd (RedisClient_disconnect redis_ok \<lparr>client = Some 7\<rparr> []))) = None
   \<and> fst (Database_getPool (fst (snd (Database_disconnect pg_ok \<lparr>pool = Some 1\<rparr> []))) []) =
        Inl (new_Error ''Database pool not initialized. Call connect() first.'')
   \<and> fst (RedisClient_getClient
             (fst (snd (RedisClient_disconnect redis_ok \<lparr>client = Some 7\<rparr> []))) []) =
        Inl (new_Error ''Redis client not initialized. Call connect() first.'')"
proof -
  let ?d = "fst (snd (Database_disconnect pg_ok \<lparr>pool = Some 1\<rparr> []))"
  let ?rc = "fst (snd (RedisClient_disconnect redis_ok \<lparr>client = Some 7\<rparr> []))"
  have a: "pool ?d = None" by (simp add: Database_disconnect_def pg_ok_def)
  have b: "client ?rc = None"
    by (simp add: RedisClient_disconnect_def redis_ok_def redis_listeners_def)
  note before = not_initialized_throws [OF new_wrappers_hold_nothing,
      of pg_ok "[]" 0 5 "''SELECT 1''" None redis_ok "''k''" "''v''" None "Num 60"]
  note after = not_initialized_throws [OF a b,
      of pg_ok "[]" 0 5 "''SELECT 1''" None redis_ok "''k''" "''v''" None "Num 60"]
  from before after a b show ?thesis
    by (simp add: new_wrappers_hold_nothing db_not_initialized_def not_initialized_def)
qed

lemma db_connected:
  "Database_connect pg_ok dev_config new_Database [] =
     (Inr (), \<lparr>pool = Some 1\<rparr>,
      [\<lparr>severity = LInfo, text_of = ''Database connection pool established successfully'',
        meta = JUndefined\<rparr>])"
  by (simp add: Database_connect_def pg_ok_def new_Database_def logger_call_def)

lemma redis_connected:
  "RedisClient_connect redis_ok dev_config new_RedisClient [] =
     (Inr (), \<lparr>client = Some 7\<rparr>,
      [\<lparr>severity = LInfo, text_of = ''Redis client connecting...'', meta = JUndefined\<rparr>,
       \<lparr>severity = LInfo, text_of = ''Redis client ready'', meta = JUndefined\<rparr>,
       \<lparr>severity = LInfo, text_of = ''Redis connection established successfully'',
        meta = JUndefined\<rparr>])"
  by (simp add: RedisClient_connect_def redis_ok_def new_RedisClient_def logger_call_def
      redis_listeners_def redis_listener_def)




section \<open>The Session Manager\<close>

lemma store0_tok:
  "store0 ''tok'' = Some \<lparr>token = ''tok'', userId = ''u1'', createdAt = 100,
     lastActivityAt = 100, expiresAt = 130\<rparr>"
  by (simp add: store0_def create_def pol0_def Let_def)

lemma store0_other: "store0 ''nope'' = None"
  by (simp add: store0_def create_def pol0_def Let_def)

text \<open>
  C9. For a session the store knows, \<open>validate\<close> succeeds, returning that session, if
  and only if \<open>now \<le> expiresAt\<close> and \<open>now \<le> createdAt + maxDuration\<close>; for an
  unknown token it fails.
\<close>

theorem validate_iff:
  "(st tok = Some s \<longrightarrow>
      ((\<exists>s'. validate pol now st tok = Inr s') \<longleftrightarrow>
         now \<le> expiresAt s \<and> now \<le> createdAt s + maxDuration pol)
      \<and> (\<forall>s'. validate pol now st tok = Inr s' \<longrightarrow> s' = s))
   \<and> (st tok = None \<longrightarrow> validate pol now st tok = Inl Invalid)"
  by (auto simp: validate_def)

theorem validate_iff_witness:
  "store0 ''tok'' = Some \<lparr>token = ''tok'', userId = ''u1'', createdAt = 100,
     lastActivityAt = 100, expiresAt = 130\<rparr>
   \<and> validate pol0 120 store0 ''tok'' = Inr \<lparr>token = ''tok'', userId = ''u1'', createdAt = 100,
     lastActivityAt = 100, expiresAt = 130\<rparr>
   \<and> \<not> (\<exists>s'. validate pol0 131 store0 ''tok'' = Inr s')
   \<and> store0 ''nope'' = None
   \<and> validate pol0 120 store0 ''nope'' = Inl Invalid"
proof -
  let ?s = "\<lparr>token = ''tok'', userId = ''u1'', createdAt = 100,
     lastActivityAt = 100, expiresAt = 130\<rparr>"
  from validate_iff [of store0 "''tok''" ?s pol0 120] store0_tok
  have a: "validate pol0 120 store0 ''tok'' = Inr ?s"
    by (auto simp: pol0_def)
  from validate_iff [of store0 "''tok''" ?s pol0 131] store0_tok
  have b: "\<not> (\<exists>s'. validate pol0 131 store0 ''tok'' = Inr s')"
    by (simp add: pol0_def)
  from validate_iff [of store0 "''nope''" ?s pol0 120] store0_other
  have c: "validate pol0 120 store0 ''nope'' = Inl Invalid" by blast
  from a b c store0_tok store0_other show ?thesis by blast
qed

text \<open>
  A session made by \<open>create\<close> is within the ceiling when the idle timeout is at most the
  maximal duration, and not otherwise.
\<close>

lemma create_within_ceiling:
  "create pol now tok uid st = (s, st') \<Longrightarrow>
   (expiresAt s \<le> createdAt s + maxDuration pol) = (idleTimeout pol \<le> maxDuration pol)"
  by (auto simp: create_def Let_def)

lemma store1_tok: "store1 ''tok'' = Some sess_over"
  by (simp add: store1_def create_def pol1_def sess_over_def Let_def)

text \<open>
  C10, as stated, fails: under a policy whose idle timeout exceeds the maximal duration,
  \<open>create\<close> stores a session with \<open>expiresAt\<close> past the ceiling; a \<open>renew\<close> after
  the ceiling is the no-op error, and the post-state still has \<open>expiresAt\<close> past
  \<open>createdAt + maxDuration\<close>.
\<close>

theorem renew_capped_counterexample:
  "store1 ''tok'' = Some sess_over
   \<and> renew pol1 120 store1 ''tok'' = (Inl Expired, store1)
   \<and> \<not> expiresAt sess_over \<le> createdAt sess_over + maxDuration pol1"
  by (simp add: store1_tok renew_def validate_def)
     (simp add: sess_over_def pol1_def)

text \<open>
  C10, amended. For every session the store knows and every call to \<open>renew\<close>: on an
  expired session the call is an error that changes nothing; otherwise it succeeds and
  stores the session with \<open>expiresAt\<close> set to \<open>now + idleTimeout\<close> cut at
  \<open>createdAt + maxDuration\<close>, so the post-state satisfies
  \<open>expiresAt \<le> createdAt + maxDuration\<close>. After any call, a session that was within
  the ceiling before the call is within it.
\<close>

theorem renew_capped:
  assumes "st tok = Some s" and "renew pol now st tok = (r, st')"
  shows "((\<exists>f. validate pol now st tok = Inl f) \<longrightarrow> r = Inl Expired \<and> st' = st)
    \<and> ((\<exists>v. validate pol now st tok = Inr v) \<longrightarrow>
         (\<exists>s'. r = Inr s' \<and> st' = st(tok \<mapsto> s')
            \<and> createdAt s' = createdAt s
            \<and> expiresAt s' = min (now + idleTimeout pol) (createdAt s + maxDuration pol)
            \<and> expiresAt s' \<le> createdAt s' + maxDuration pol))
    \<and> (expiresAt s \<le> createdAt s + maxDuration pol \<longrightarrow>
         (\<exists>s'. st' tok = Some s' \<and> expiresAt s' \<le> createdAt s' + maxDuration pol))"
  using assms
  by (auto simp: renew_def validate_def Let_def split: if_splits)

theorem renew_capped_witness:
  "(store0(''tok'' \<mapsto> sess1)) ''tok'' = Some sess1
   \<and> renew pol0 815 (store0(''tok'' \<mapsto> sess1)) ''tok'' =
       (Inr (sess1\<lparr>lastActivityAt := 815, expiresAt := 820\<rparr>),
        store0(''tok'' \<mapsto> sess1\<lparr>lastActivityAt := 815, expiresAt := 820\<rparr>))
   \<and> (\<exists>v. validate pol0 815 (store0(''tok'' \<mapsto> sess1)) ''tok'' = Inr v)
   \<and> expiresAt (sess1\<lparr>lastActivityAt := 815, expiresAt := 820\<rparr>)
       \<le> createdAt (sess1\<lparr>lastActivityAt := 815, expiresAt := 820\<rparr>) + maxDuration pol0
   \<and> renew pol0 821 (store0(''tok'' \<mapsto> sess1)) ''tok'' = (Inl Expired, store0(''tok'' \<mapsto> sess1))
   \<and> (\<exists>f. validate pol0 821 (store0(''tok'' \<mapsto> sess1)) ''tok'' = Inl f)
   \<and> expiresAt sess1 \<le> createdAt sess1 + maxDuration pol0
   \<and> (\<exists>s'. (store0(''tok'' \<mapsto> sess1)) ''tok'' = Some s'
         \<and> expiresAt s' \<le> createdAt s' + maxDuration pol0)"
proof -
  let ?st = "store0(''tok'' \<mapsto> sess1)"
  let ?s' = "sess1\<lparr>lastActivityAt := 815, expiresAt := 820\<rparr>"
  have k: "?st ''tok'' = Some sess1" by simp
  have r1: "renew pol0 815 ?st ''tok'' = (Inr ?s', ?st(''tok'' \<mapsto> ?s'))"
    by (simp add: renew_def validate_def pol0_def sess1_def Let_def)
  have r2: "renew pol0 821 ?st ''tok'' = (Inl Expired, ?st)"
    by (simp add: renew_def validate_def pol0_def sess1_def Let_def)
  have v1: "\<exists>v. validate pol0 815 ?st ''tok'' = Inr v"
    by (simp add: validate_def pol0_def sess1_def)
  have v2: "\<exists>f. validate pol0 821 ?st ''tok'' = Inl f"
    by (simp add: validate_def pol0_def sess1_def)
  have b: "expiresAt sess1 \<le> createdAt sess1 + maxDuration pol0"
    by (simp add: pol0_def sess1_def)
  from renew_capped [OF k r1] v1
  have c: "expiresAt ?s' \<le> createdAt ?s' + maxDuration pol0" by blast
  from renew_capped [OF k r2] b
  have p: "\<exists>s'. ?st ''tok'' = Some s' \<and> expiresAt s' \<le> createdAt s' + maxDuration pol0"
    by blast
  from k r1 r2 v1 v2 b c p show ?thesis by simp
qed

end
